theory Spec2Isabelle
  imports Main
begin

section \<open>The Next.js configuration of the dashboard (next.config.js)\<close>

text \<open>
  The file exports one object literal, \<open>nextConfig\<close>: five constant settings and the
  \<open>webpack\<close> hook that Next.js calls with the webpack configuration it has built. The
  hook works on that object in place: it assigns \<open>config.resolve.alias\<close> and
  \<open>config.externals\<close>, pushes onto the arrays \<open>config.externals\<close> and
  \<open>config.module.rules\<close>, and returns the object it was given. The file is a CommonJS
  module without a \<open>'use strict'\<close> directive, so it runs in sloppy mode.
\<close>

subsection \<open>Values, objects and the heap\<close>

text \<open>
  Objects live in a heap and values refer to them by address, so that two properties can
  hold the same object and a change made through one is seen through the other. Numbers
  are the integers.
\<close>

type_synonym addr = nat

datatype js_value =
    JUndefined
  | JNull
  | JBool bool
  | JNumber int
  | JString string
  | JRef addr

text \<open>
  An object is an ordinary object, an array with its elements, a function or a regular
  expression with its source text. \<open>props\<close> holds its own properties other than the
  elements and the length of an array. Every property is an enumerable data property,
  and every object inherits from the built-in prototype of its kind only: property
  attributes set one by one, accessors, proxies and changed prototypes are not modelled.

  \<open>integrity\<close> is what \<open>Object.preventExtensions\<close> and \<open>Object.seal\<close>
  (\<open>NonExtensible\<close>: no property can be added) and \<open>Object.freeze\<close> (\<open>Frozen\<close>: nor
  can one be changed) have done to the object.
\<close>

datatype object_kind =
    OrdinaryObject
  | ArrayObject "js_value list"
  | FunctionObject
  | RegExpObject string

datatype integrity = Extensible | NonExtensible | Frozen

record heap_object =
  kind :: object_kind
  props :: "string \<rightharpoonup> js_value"
  integrity :: integrity

text \<open>
  The heap is the list of the objects allocated so far; an address is an index into
  it, and a new object goes to the end.
\<close>

type_synonym heap = "heap_object list"

definition lookup :: "heap \<Rightarrow> addr \<Rightarrow> heap_object option" where
  "lookup h a = (if a < length h then Some (h ! a) else None)"

definition alloc :: "heap \<Rightarrow> heap_object \<Rightarrow> addr \<times> heap" where
  "alloc h obj = (length h, h @ [obj])"

text \<open>
  What a run can end in besides a result: the two exceptions the hook can raise, and
  \<open>Stuck\<close> for what the model does not determine (a reference to an address that holds
  no object, which no program state has, and the call of a function written by the
  user, whose body is not part of the model). A run that fails keeps no heap.
\<close>

datatype failure = TypeError | RangeError | Stuck

subsection \<open>Expressions\<close>

text \<open>JavaScript's truthiness, as \<open>||\<close> tests it.\<close>

fun truthy :: "js_value \<Rightarrow> bool" where
  "truthy JUndefined = False"
| "truthy JNull = False"
| "truthy (JBool b) = b"
| "truthy (JNumber n) = (n \<noteq> 0)"
| "truthy (JString s) = (s \<noteq> [])"
| "truthy (JRef a) = True"

text \<open>
  \<open>v.name\<close>, for the names the hook reads (\<open>resolve\<close>, \<open>alias\<close>, \<open>externals\<close>,
  \<open>module\<close>, \<open>rules\<close>): none of them is an array index, a length or a property of a
  built-in prototype. Reading a property of \<open>undefined\<close> or \<open>null\<close> throws; a
  boolean, a number and a string have no such property.
\<close>

fun get_prop :: "heap \<Rightarrow> js_value \<Rightarrow> string \<Rightarrow> failure + js_value" where
  "get_prop h JUndefined name = Inl TypeError"
| "get_prop h JNull name = Inl TypeError"
| "get_prop h (JRef a) name =
     (case lookup h a of
        None \<Rightarrow> Inl Stuck
      | Some obj \<Rightarrow> Inr (case props obj name of None \<Rightarrow> JUndefined | Some v \<Rightarrow> v))"
| "get_prop h _ name = Inr JUndefined"

text \<open>
  Whether an assignment to \<open>obj.name\<close> takes effect: an existing property can be changed
  unless the object is frozen, a new one can be added only to an extensible object.
\<close>

definition can_assign :: "heap_object \<Rightarrow> string \<Rightarrow> bool" where
  "can_assign obj name =
     (case props obj name of
        Some _ \<Rightarrow> integrity obj \<noteq> Frozen
      | None \<Rightarrow> integrity obj = Extensible)"

text \<open>
  \<open>v.name = x\<close> in sloppy mode: an assignment that cannot take effect (on a frozen or
  non-extensible object, on a boolean, a number or a string) is dropped silently. Only
  \<open>undefined\<close> and \<open>null\<close> throw.
\<close>

fun set_prop :: "heap \<Rightarrow> js_value \<Rightarrow> string \<Rightarrow> js_value \<Rightarrow> failure + heap" where
  "set_prop h JUndefined name x = Inl TypeError"
| "set_prop h JNull name x = Inl TypeError"
| "set_prop h (JRef a) name x =
     (case lookup h a of
        None \<Rightarrow> Inl Stuck
      | Some obj \<Rightarrow>
          Inr (if can_assign obj name then h[a := obj\<lparr>props := (props obj)(name \<mapsto> x)\<rparr>] else h))"
| "set_prop h _ name x = Inr h"

text \<open>The name of an array index: its decimal numeral.\<close>

function index_key :: "nat \<Rightarrow> string" where
  "index_key n =
     (if n < 10 then [char_of (48 + n)]
      else index_key (n div 10) @ [char_of (48 + n mod 10)])"
  by pat_completeness auto
termination
  by (relation "measure id") auto

definition index_props :: "js_value list \<Rightarrow> (string \<rightharpoonup> js_value)" where
  "index_props es = map_of (zip (map index_key [0..<length es]) es)"

text \<open>
  The own enumerable properties that \<open>{ ...v }\<close> copies: those of an object, with the
  elements of an array under their indices; the characters of a string under their
  indices; none for any other value.
\<close>

fun own_enumerable :: "heap \<Rightarrow> js_value \<Rightarrow> failure + (string \<rightharpoonup> js_value)" where
  "own_enumerable h (JRef a) =
     (case lookup h a of
        None \<Rightarrow> Inl Stuck
      | Some obj \<Rightarrow>
          Inr (case kind obj of
                 ArrayObject es \<Rightarrow> index_props es ++ props obj
               | _ \<Rightarrow> props obj))"
| "own_enumerable h (JString s) = Inr (index_props (map (\<lambda>c. JString [c]) s))"
| "own_enumerable h _ = Inr Map.empty"

text \<open>Whether a value is a function.\<close>

fun is_function :: "heap \<Rightarrow> js_value \<Rightarrow> bool" where
  "is_function h (JRef a) =
     (case lookup h a of None \<Rightarrow> False | Some obj \<Rightarrow> kind obj = FunctionObject)"
| "is_function h _ = False"

text \<open>The largest length an array can have, \<open>2^32 - 1\<close>.\<close>

definition max_array_length :: nat where
  "max_array_length = 4294967295"

text \<open>
  \<open>target.push(x)\<close>. Only an array inherits \<open>push\<close>; on \<open>undefined\<close> and \<open>null\<close> the
  read of \<open>push\<close> throws, on every other value without a \<open>push\<close> of its own the call
  of \<open>undefined\<close> throws. \<open>Array.prototype.push\<close> appends in place; it throws a
  \<open>TypeError\<close> when the array is not extensible and a \<open>RangeError\<close> when the array is
  as long as an array can be. An object with a \<open>push\<close> property of its own calls that
  instead: a function of the user's, or a \<open>TypeError\<close>.
\<close>

fun call_push :: "heap \<Rightarrow> js_value \<Rightarrow> js_value \<Rightarrow> failure + heap" where
  "call_push h (JRef a) x =
     (case lookup h a of
        None \<Rightarrow> Inl Stuck
      | Some obj \<Rightarrow>
          (case props obj ''push'' of
             Some f \<Rightarrow> if is_function h f then Inl Stuck else Inl TypeError
           | None \<Rightarrow>
               (case kind obj of
                  ArrayObject es \<Rightarrow>
                    if integrity obj \<noteq> Extensible then Inl TypeError
                    else if max_array_length \<le> length es then Inl RangeError
                    else Inr (h[a := obj\<lparr>kind := ArrayObject (es @ [x])\<rparr>])
                | _ \<Rightarrow> Inl TypeError)))"
| "call_push h _ x = Inl TypeError"

subsection \<open>The object literals of the hook\<close>

text \<open>A literal makes a new extensible object.\<close>

definition object_literal :: "(string \<rightharpoonup> js_value) \<Rightarrow> heap_object" where
  "object_literal ps = \<lparr>kind = OrdinaryObject, props = ps, integrity = Extensible\<rparr>"

definition array_literal :: "js_value list \<Rightarrow> heap_object" where
  "array_literal es = \<lparr>kind = ArrayObject es, props = Map.empty, integrity = Extensible\<rparr>"

definition regexp_literal :: "string \<Rightarrow> heap_object" where
  "regexp_literal src = \<lparr>kind = RegExpObject src, props = Map.empty, integrity = Extensible\<rparr>"

text \<open>\<open>{ 'google.maps': 'google.maps' }\<close>\<close>

definition google_maps_external :: heap_object where
  "google_maps_external = object_literal [''google.maps'' \<mapsto> JString ''google.maps'']"

text \<open>
  \<open>/\.(jpg|jpeg|png|gif|svg)$/\<close>, kept as its source text; its first character is a
  backslash.
\<close>

definition image_test :: heap_object where
  "image_test = regexp_literal (CHR 0x5C # ''.(jpg|jpeg|png|gif|svg)$'')"

text \<open>\<open>{ filename: 'static/images/[name].[hash][ext]' }\<close>\<close>

definition image_generator :: heap_object where
  "image_generator = object_literal [''filename'' \<mapsto> JString ''static/images/[name].[hash][ext]'']"

text \<open>
  \<open>{ test: ..., type: 'asset/resource', generator: ... }\<close>, given the addresses of its
  regular expression and of its generator object.
\<close>

definition image_rule :: "addr \<Rightarrow> addr \<Rightarrow> heap_object" where
  "image_rule t g =
     object_literal
       [''test'' \<mapsto> JRef t, ''type'' \<mapsto> JString ''asset/resource'', ''generator'' \<mapsto> JRef g]"

subsection \<open>The three statements of the hook\<close>

text \<open>
  \<open>config.resolve.alias = { ...(config.resolve.alias || {}), "sharp$": false }\<close>.
  The literal is a new object: the properties the spread copies, then \<open>sharp$\<close> bound to
  \<open>false\<close>, whether or not it was bound before. The empty object of \<open>|| {}\<close> is
  spread and dropped at once, so the model allocates nothing for it.
\<close>

definition assign_alias :: "heap \<Rightarrow> js_value \<Rightarrow> failure + heap" where
  "assign_alias h config =
     (case get_prop h config ''resolve'' of
        Inl e \<Rightarrow> Inl e
      | Inr r \<Rightarrow>
          (case get_prop h r ''alias'' of
             Inl e \<Rightarrow> Inl e
           | Inr a \<Rightarrow>
               (case (if truthy a then own_enumerable h a else Inr Map.empty) of
                  Inl e \<Rightarrow> Inl e
                | Inr ps \<Rightarrow>
                    let (n, h1) = alloc h (object_literal (ps(''sharp$'' \<mapsto> JBool False)))
                    in set_prop h1 r ''alias'' (JRef n))))"

text \<open>
  \<open>config.externals = config.externals || []\<close>, then
  \<open>config.externals.push({ 'google.maps': 'google.maps' })\<close>, which reads
  \<open>config.externals\<close> again.
\<close>

definition push_external :: "heap \<Rightarrow> js_value \<Rightarrow> failure + heap" where
  "push_external h config =
     (case get_prop h config ''externals'' of
        Inl e \<Rightarrow> Inl e
      | Inr e \<Rightarrow>
          let (v, h1) = (if truthy e then (e, h)
                         else (let (n, h') = alloc h (array_literal []) in (JRef n, h')))
          in (case set_prop h1 config ''externals'' v of
                Inl e \<Rightarrow> Inl e
              | Inr h2 \<Rightarrow>
                  (case get_prop h2 config ''externals'' of
                     Inl e \<Rightarrow> Inl e
                   | Inr target \<Rightarrow>
                       let (g, h3) = alloc h2 google_maps_external
                       in call_push h3 target (JRef g))))"

text \<open>\<open>config.module.rules.push({ test: ..., type: ..., generator: ... })\<close>\<close>

definition push_rule :: "heap \<Rightarrow> js_value \<Rightarrow> failure + heap" where
  "push_rule h config =
     (case get_prop h config ''module'' of
        Inl e \<Rightarrow> Inl e
      | Inr m \<Rightarrow>
          (case get_prop h m ''rules'' of
             Inl e \<Rightarrow> Inl e
           | Inr rs \<Rightarrow>
               let (t, h1) = alloc h image_test;
                   (g, h2) = alloc h1 image_generator;
                   (r, h3) = alloc h2 (image_rule t g)
               in call_push h3 rs (JRef r)))"

subsection \<open>The hook\<close>

text \<open>
  The statements in the order of the source, then \<open>return config\<close>: the value the hook
  was given, and the heap as the statements have left it.
\<close>

definition webpack :: "heap \<Rightarrow> js_value \<Rightarrow> failure + js_value \<times> heap" where
  "webpack h config =
     (case assign_alias h config of
        Inl e \<Rightarrow> Inl e
      | Inr h1 \<Rightarrow>
          (case push_external h1 config of
             Inl e \<Rightarrow> Inl e
           | Inr h2 \<Rightarrow>
               (case push_rule h2 config of
                  Inl e \<Rightarrow> Inl e
                | Inr h3 \<Rightarrow> Inr (config, h3))))"

subsection \<open>The exported object\<close>

record images_options =
  unoptimized :: bool

record eslint_options =
  ignoreDuringBuilds :: bool

record typescript_options =
  ignoreBuildErrors :: bool

text \<open>
  The field \<open>output'\<close> is the property \<open>output\<close> (a keyword of Isabelle), and
  \<open>webpack_hook\<close> is the property \<open>webpack\<close>, which holds the function above.
\<close>

record next_config =
  output' :: string
  images :: images_options
  reactStrictMode :: bool
  eslint :: eslint_options
  typescript :: typescript_options
  webpack_hook :: "heap \<Rightarrow> js_value \<Rightarrow> failure + js_value \<times> heap"

definition nextConfig :: next_config where
  "nextConfig =
     \<lparr>output' = ''export'',
      images = \<lparr>unoptimized = True\<rparr>,
      reactStrictMode = True,
      eslint = \<lparr>ignoreDuringBuilds = True\<rparr>,
      typescript = \<lparr>ignoreBuildErrors = True\<rparr>,
      webpack_hook = webpack\<rparr>"

section \<open>Properties\<close>

text \<open>
  C10. The exported object sets \<open>output\<close> to \<open>'export'\<close>, \<open>images.unoptimized\<close>,
  \<open>reactStrictMode\<close>, \<open>eslint.ignoreDuringBuilds\<close> and
  \<open>typescript.ignoreBuildErrors\<close> to \<open>true\<close>. It is a literal: nothing it is computed
  from can change these settings.
\<close>

theorem nextConfig_settings:
  "output' nextConfig = ''export''
   \<and> unoptimized (images nextConfig) = True
   \<and> reactStrictMode nextConfig = True
   \<and> ignoreDuringBuilds (eslint nextConfig) = True
   \<and> ignoreBuildErrors (typescript nextConfig) = True"
  by (simp add: nextConfig_def)

subsection \<open>The heap after an allocation and after a store\<close>

lemma lookup_bound: "lookup h a = Some x \<Longrightarrow> a < length h"
  by (simp add: lookup_def split: if_splits)

lemma lookup_alloc: "lookup (h @ [x]) = (lookup h)(length h \<mapsto> x)"
  by (rule ext) (auto simp: lookup_def nth_append)

lemma lookup_store: "a < length h \<Longrightarrow> lookup (h[a := x]) = (lookup h)(a \<mapsto> x)"
  by (rule ext) (auto simp: lookup_def)

lemma lookup_alloc3:
  "lookup (h @ [x, y, z]) =
     (lookup h)(length h \<mapsto> x, Suc (length h) \<mapsto> y, Suc (Suc (length h)) \<mapsto> z)"
  using lookup_alloc [of h x] lookup_alloc [of "h @ [x]" y] lookup_alloc [of "h @ [x, y]" z]
  by simp

subsection \<open>What each statement does to the heap\<close>

lemma assign_alias_run:
  assumes cfg: "lookup h c = Some co"
    and res: "props co ''resolve'' = Some (JRef ra)" "lookup h ra = Some ro"
    and asg: "can_assign ro ''alias''"
    and rd: "get_prop h (JRef ra) ''alias'' = Inr a"
    and als: "\<not> truthy a \<and> ps = Map.empty
       \<or> (\<exists>aa ao. a = JRef aa \<and> lookup h aa = Some ao \<and> (\<forall>es. kind ao \<noteq> ArrayObject es) \<and> ps = props ao)"
  shows "\<exists>h'. assign_alias h (JRef c) = Inr h' \<and> length h' = Suc (length h)
     \<and> lookup h' = (lookup h)
         (length h \<mapsto> object_literal (ps(''sharp$'' \<mapsto> JBool False)),
          ra \<mapsto> ro\<lparr>props := (props ro)(''alias'' \<mapsto> JRef (length h))\<rparr>)"
proof -
  let ?h1 = "h @ [object_literal (ps(''sharp$'' \<mapsto> JBool False))]"
  let ?ro = "ro\<lparr>props := (props ro)(''alias'' \<mapsto> JRef (length h))\<rparr>"
  have ra: "ra < length h" by (rule lookup_bound [OF res(2)])
  have spread: "(if truthy a then own_enumerable h a else Inr Map.empty) = Inr ps"
    using als by (auto split: object_kind.splits)
  have rd0: "get_prop h (JRef c) ''resolve'' = Inr (JRef ra)"
    using cfg res(1) by simp
  have at: "lookup ?h1 ra = Some ro"
    using res(2) ra by (simp add: lookup_alloc)
  have st: "set_prop ?h1 (JRef ra) ''alias'' (JRef (length h)) = Inr (?h1[ra := ?ro])"
    using at asg by simp
  have run: "assign_alias h (JRef c) = Inr (?h1[ra := ?ro])"
    by (simp add: assign_alias_def rd0 rd spread alloc_def st
          del: get_prop.simps set_prop.simps)
  have "lookup (?h1[ra := ?ro]) = (lookup ?h1)(ra \<mapsto> ?ro)"
    using ra by (intro lookup_store) simp
  then show ?thesis
    using run by (simp add: lookup_alloc)
qed

lemma push_array:
  assumes at: "lookup h a = Some obj"
    and arr: "kind obj = ArrayObject es" "integrity obj = Extensible" "props obj ''push'' = None"
      "length es < max_array_length"
  shows "\<exists>h'. call_push h (JRef a) x = Inr h' \<and> length h' = length h
     \<and> lookup h' = (lookup h)(a \<mapsto> obj\<lparr>kind := ArrayObject (es @ [x])\<rparr>)"
  using at arr lookup_bound [OF at] by (simp add: lookup_store)

lemma push_external_array:
  assumes cfg: "lookup h c = Some co"
    and ext: "props co ''externals'' = Some (JRef ea)" "lookup h ea = Some eo"
    and arr: "kind eo = ArrayObject xs" "integrity eo = Extensible" "props eo ''push'' = None"
      "length xs < max_array_length"
  shows "\<exists>h'. push_external h (JRef c) = Inr h' \<and> length h' = Suc (length h)
     \<and> lookup h' = (lookup h)
         (length h \<mapsto> google_maps_external,
          ea \<mapsto> eo\<lparr>kind := ArrayObject (xs @ [JRef (length h)])\<rparr>)"
proof -
  let ?h3 = "h @ [google_maps_external]"
  have same: "co\<lparr>props := (props co)(''externals'' \<mapsto> JRef ea)\<rparr> = co"
    using ext(1) by (simp add: map_upd_triv)
  have nth: "h ! c = co"
    using cfg by (simp add: lookup_def split: if_splits)
  have kept: "h[c := co] = h"
    unfolding nth [symmetric] by (rule list_update_id)
  have rd: "get_prop h (JRef c) ''externals'' = Inr (JRef ea)"
    using cfg ext(1) by simp
  have st: "set_prop h (JRef c) ''externals'' (JRef ea) = Inr h"
    using cfg by (simp add: same kept)
  have at: "lookup ?h3 ea = Some eo"
    using ext(2) lookup_bound [OF ext(2)] by (simp add: lookup_alloc)
  from push_array [OF at arr, of "JRef (length h)"] obtain h' where
    "call_push ?h3 (JRef ea) (JRef (length h)) = Inr h'" "length h' = length ?h3"
    "lookup h' = (lookup ?h3)(ea \<mapsto> eo\<lparr>kind := ArrayObject (xs @ [JRef (length h)])\<rparr>)"
    by blast
  then show ?thesis
    by (simp add: push_external_def rd st alloc_def lookup_alloc
          del: get_prop.simps set_prop.simps call_push.simps)
qed

lemma push_external_falsy:
  assumes cfg: "lookup h c = Some co"
    and rd: "get_prop h (JRef c) ''externals'' = Inr e" "\<not> truthy e"
    and asg: "can_assign co ''externals''"
  shows "\<exists>h'. push_external h (JRef c) = Inr h' \<and> length h' = Suc (Suc (length h))
     \<and> lookup h' = (lookup h)
         (c \<mapsto> co\<lparr>props := (props co)(''externals'' \<mapsto> JRef (length h))\<rparr>,
          length h \<mapsto> array_literal [JRef (Suc (length h))],
          Suc (length h) \<mapsto> google_maps_external)"
proof -
  let ?h1 = "h @ [array_literal []]"
  let ?h2 = "?h1[c := co\<lparr>props := (props co)(''externals'' \<mapsto> JRef (length h))\<rparr>]"
  let ?h3 = "?h2 @ [google_maps_external]"
  have c: "c < length h" by (rule lookup_bound [OF cfg])
  have l2: "lookup ?h2 = (lookup h)
      (length h \<mapsto> array_literal [],
       c \<mapsto> co\<lparr>props := (props co)(''externals'' \<mapsto> JRef (length h))\<rparr>)"
    using c by (simp add: lookup_store lookup_alloc)
  have st: "set_prop ?h1 (JRef c) ''externals'' (JRef (length h)) = Inr ?h2"
    using cfg c asg by (simp add: lookup_alloc)
  have rd2: "get_prop ?h2 (JRef c) ''externals'' = Inr (JRef (length h))"
    by (simp add: l2)
  have at: "lookup ?h3 (length h) = Some (array_literal [])"
    using c by (simp add: lookup_alloc l2)
  have arr: "kind (array_literal []) = ArrayObject []" "integrity (array_literal []) = Extensible"
    "props (array_literal []) ''push'' = None" "length ([] :: js_value list) < max_array_length"
    by (simp_all add: array_literal_def max_array_length_def)
  from push_array [OF at arr, of "JRef (Suc (length h))"] obtain h' where
    "call_push ?h3 (JRef (length h)) (JRef (Suc (length h))) = Inr h'" "length h' = length ?h3"
    "lookup h' = (lookup ?h3)(length h \<mapsto> array_literal [JRef (Suc (length h))])"
    by (auto simp: array_literal_def)
  moreover have "lookup ?h3 = (lookup ?h2)(Suc (length h) \<mapsto> google_maps_external)"
    using lookup_alloc [of ?h2 google_maps_external] by simp
  ultimately show ?thesis
    using rd(2) c
    by (simp add: push_external_def rd(1) st rd2 alloc_def l2 fun_upd_twist
          del: get_prop.simps set_prop.simps call_push.simps)
qed

lemma push_rule_run:
  assumes cfg: "lookup h c = Some co"
    and md: "props co ''module'' = Some (JRef ma)" "lookup h ma = Some mo"
    and rl: "props mo ''rules'' = Some (JRef rla)" "lookup h rla = Some rlo"
    and arr: "kind rlo = ArrayObject rs" "integrity rlo = Extensible" "props rlo ''push'' = None"
      "length rs < max_array_length"
  shows "\<exists>h'. push_rule h (JRef c) = Inr h' \<and> length h' = length h + 3
     \<and> lookup h' = (lookup h)
         (length h \<mapsto> image_test,
          Suc (length h) \<mapsto> image_generator,
          Suc (Suc (length h)) \<mapsto> image_rule (length h) (Suc (length h)),
          rla \<mapsto> rlo\<lparr>kind := ArrayObject (rs @ [JRef (Suc (Suc (length h)))])\<rparr>)"
proof -
  let ?h3 = "h @ [image_test, image_generator, image_rule (length h) (Suc (length h))]"
  have rd1: "get_prop h (JRef c) ''module'' = Inr (JRef ma)"
    using cfg md(1) by simp
  have rd2: "get_prop h (JRef ma) ''rules'' = Inr (JRef rla)"
    using md(2) rl(1) by simp
  have l3: "lookup ?h3 = (lookup h)
      (length h \<mapsto> image_test, Suc (length h) \<mapsto> image_generator,
       Suc (Suc (length h)) \<mapsto> image_rule (length h) (Suc (length h)))"
    by (rule lookup_alloc3)
  have at: "lookup ?h3 rla = Some rlo"
    using rl(2) lookup_bound [OF rl(2)] by (simp add: l3)
  from push_array [OF at arr, of "JRef (Suc (Suc (length h)))"] obtain h' where
    "call_push ?h3 (JRef rla) (JRef (Suc (Suc (length h)))) = Inr h'" "length h' = length ?h3"
    "lookup h' = (lookup ?h3)(rla \<mapsto> rlo\<lparr>kind := ArrayObject (rs @ [JRef (Suc (Suc (length h)))])\<rparr>)"
    by blast
  then show ?thesis
    by (simp add: push_rule_def rd1 rd2 alloc_def l3
          del: get_prop.simps set_prop.simps call_push.simps)
qed

subsection \<open>The hook on a configuration of the shape it is written for\<close>

text \<open>
  C9, as far as it holds. Let the hook be given a configuration object \<open>co\<close> such that
  \<^item> \<open>config.resolve\<close> is an object \<open>ro\<close> on which \<open>alias\<close> can be assigned, and
    \<open>config.resolve.alias\<close> is falsy (absent, say) or an object that is not an array,
    with the properties \<open>ps\<close>;
  \<^item> \<open>config.externals\<close> is falsy, and then \<open>externals\<close> can be assigned on the
    configuration (\<open>eo\<close> is then the empty array the hook makes, and \<open>xs\<close> is empty),
    or it is an array \<open>eo\<close> with the elements \<open>xs\<close>;
  \<^item> \<open>config.module\<close> is an object \<open>mo\<close> and \<open>config.module.rules\<close> an array \<open>rlo\<close>
    with the elements \<open>rs\<close>;
  \<^item> both arrays are extensible, shorter than the longest array, and have the built-in
    \<open>push\<close>;
  \<^item> the configuration, \<open>resolve\<close>, \<open>module\<close> and the two arrays are five different
    objects.

  Then the hook returns the configuration it was given, and in the heap it leaves
  \<^item> \<open>resolve.alias\<close> is a new object with the properties \<open>ps\<close>, but \<open>sharp$\<close> bound to
    \<open>false\<close>; \<open>resolve\<close> is otherwise as it was;
  \<^item> \<open>externals\<close> is the array it was (a new one when it was falsy), with the elements
    \<open>xs\<close> followed by one new object \<open>{ 'google.maps': 'google.maps' }\<close>; the
    configuration is otherwise as it was;
  \<^item> \<open>module\<close> is as it was, and its \<open>rules\<close> array has the elements \<open>rs\<close> followed by
    one new object, the image rule;
  \<^item> every other object that was in the heap is as it was.
\<close>

theorem webpack_frame:
  assumes cfg: "lookup h c = Some co"
    and res: "props co ''resolve'' = Some (JRef ra)" "lookup h ra = Some ro"
      "can_assign ro ''alias''"
    and als: "get_prop h (JRef ra) ''alias'' = Inr a"
      "\<not> truthy a \<and> ps = Map.empty
       \<or> (\<exists>aa ao. a = JRef aa \<and> lookup h aa = Some ao \<and> (\<forall>es. kind ao \<noteq> ArrayObject es) \<and> ps = props ao)"
    and ext: "get_prop h (JRef c) ''externals'' = Inr e"
      "\<not> truthy e \<and> can_assign co ''externals'' \<and> eo = array_literal [] \<and> xs = []
       \<or> (\<exists>ea. e = JRef ea \<and> lookup h ea = Some eo \<and> kind eo = ArrayObject xs
             \<and> integrity eo = Extensible \<and> props eo ''push'' = None
             \<and> length xs < max_array_length \<and> ea \<notin> {c, ra, ma, rla})"
    and md: "props co ''module'' = Some (JRef ma)" "lookup h ma = Some mo"
    and rls: "props mo ''rules'' = Some (JRef rla)" "lookup h rla = Some rlo"
      "kind rlo = ArrayObject rs" "integrity rlo = Extensible" "props rlo ''push'' = None"
      "length rs < max_array_length"
    and dist: "distinct [c, ra, ma, rla]"
  shows "\<exists>h' na ea ga rl t g.
      webpack h (JRef c) = Inr (JRef c, h')
      \<and> lookup h' c = Some (co\<lparr>props := (props co)(''externals'' \<mapsto> JRef ea)\<rparr>)
      \<and> lookup h' ra = Some (ro\<lparr>props := (props ro)(''alias'' \<mapsto> JRef na)\<rparr>)
      \<and> lookup h' na = Some (object_literal (ps(''sharp$'' \<mapsto> JBool False)))
      \<and> (if truthy e then e = JRef ea else length h \<le> ea)
      \<and> lookup h' ea = Some (eo\<lparr>kind := ArrayObject (xs @ [JRef ga])\<rparr>)
      \<and> lookup h' ga = Some google_maps_external
      \<and> lookup h' ma = Some mo
      \<and> lookup h' rla = Some (rlo\<lparr>kind := ArrayObject (rs @ [JRef rl])\<rparr>)
      \<and> lookup h' rl = Some (image_rule t g)
      \<and> lookup h' t = Some image_test
      \<and> lookup h' g = Some image_generator
      \<and> length h \<le> na \<and> length h \<le> ga \<and> length h \<le> rl \<and> length h \<le> t \<and> length h \<le> g
      \<and> (\<forall>b. b < length h \<and> b \<notin> {c, ra, ea, rla} \<longrightarrow> lookup h' b = lookup h b)"
proof -
  let ?n = "length h"
  let ?ro = "ro\<lparr>props := (props ro)(''alias'' \<mapsto> JRef ?n)\<rparr>"
  let ?ao = "object_literal (ps(''sharp$'' \<mapsto> JBool False))"
  note bounds = lookup_bound [OF cfg] lookup_bound [OF res(2)] lookup_bound [OF md(2)]
    lookup_bound [OF rls(2)]
  from assign_alias_run [OF cfg res als] obtain h1 where
    s1: "assign_alias h (JRef c) = Inr h1" and n1: "length h1 = Suc ?n" and
    l1: "lookup h1 = (lookup h)(?n \<mapsto> ?ao, ra \<mapsto> ?ro)"
    by blast
  have c1: "lookup h1 c = Some co" using cfg dist bounds by (simp add: l1)
  have m1: "lookup h1 ma = Some mo" using md(2) dist bounds by (simp add: l1)
  have r1: "lookup h1 rla = Some rlo" using rls(2) dist bounds by (simp add: l1)
  from ext(2) show ?thesis
  proof
    assume fl: "\<not> truthy e \<and> can_assign co ''externals'' \<and> eo = array_literal [] \<and> xs = []"
    let ?ea = "length h1"
    let ?co = "co\<lparr>props := (props co)(''externals'' \<mapsto> JRef ?ea)\<rparr>"
    have rd: "get_prop h1 (JRef c) ''externals'' = Inr e"
      using ext(1) cfg c1 by simp
    from fl have fl': "\<not> truthy e" "can_assign co ''externals''" by simp_all
    from push_external_falsy [OF c1 rd fl'] obtain h2 where
      s2: "push_external h1 (JRef c) = Inr h2" and n2: "length h2 = Suc (Suc ?ea)" and
      l2: "lookup h2 = (lookup h1)(c \<mapsto> ?co, ?ea \<mapsto> array_literal [JRef (Suc ?ea)],
             Suc ?ea \<mapsto> google_maps_external)"
      by blast
    have c2: "lookup h2 c = Some ?co" using bounds by (simp add: l2 n1)
    have m2: "lookup h2 ma = Some mo" using m1 dist bounds by (simp add: l2 n1)
    have r2: "lookup h2 rla = Some rlo" using r1 dist bounds by (simp add: l2 n1)
    have mp: "props ?co ''module'' = Some (JRef ma)" using md(1) by simp
    let ?t = "length h2"
    from push_rule_run [OF c2 mp m2 rls(1) r2 rls(3,4,5,6)] obtain h3 where
      s3: "push_rule h2 (JRef c) = Inr h3" and
      l3: "lookup h3 = (lookup h2)(?t \<mapsto> image_test, Suc ?t \<mapsto> image_generator,
             Suc (Suc ?t) \<mapsto> image_rule ?t (Suc ?t),
             rla \<mapsto> rlo\<lparr>kind := ArrayObject (rs @ [JRef (Suc (Suc ?t))])\<rparr>)"
      by blast
    note ls = l3 l2 l1 n1 n2
    have "webpack h (JRef c) = Inr (JRef c, h3)"
      by (simp only: webpack_def s1 s2 s3 sum.case)
    moreover have "lookup h3 c = Some ?co" using dist bounds by (simp add: ls)
    moreover have "lookup h3 ra = Some ?ro" using dist bounds by (simp add: ls)
    moreover have "lookup h3 ?n = Some ?ao" using dist bounds by (simp add: ls)
    moreover have "if truthy e then e = JRef ?ea else ?n \<le> ?ea" using fl' by (simp add: n1)
    moreover have "lookup h3 ?ea = Some (eo\<lparr>kind := ArrayObject (xs @ [JRef (Suc ?ea)])\<rparr>)"
      using dist bounds fl by (simp add: ls array_literal_def)
    moreover have "lookup h3 (Suc ?ea) = Some google_maps_external"
      using dist bounds by (simp add: ls)
    moreover have "lookup h3 ma = Some mo" using m2 dist bounds by (simp add: ls)
    moreover have "lookup h3 rla = Some (rlo\<lparr>kind := ArrayObject (rs @ [JRef (Suc (Suc ?t))])\<rparr>)"
      by (simp add: l3)
    moreover have "lookup h3 (Suc (Suc ?t)) = Some (image_rule ?t (Suc ?t))"
      using bounds by (simp add: ls)
    moreover have "lookup h3 ?t = Some image_test" using bounds by (simp add: ls)
    moreover have "lookup h3 (Suc ?t) = Some image_generator" using bounds by (simp add: ls)
    moreover have "?n \<le> ?n \<and> ?n \<le> Suc ?ea \<and> ?n \<le> Suc (Suc ?t) \<and> ?n \<le> ?t \<and> ?n \<le> Suc ?t"
      by (simp add: n1 n2)
    moreover have "\<forall>b. b < ?n \<and> b \<notin> {c, ra, ?ea, rla} \<longrightarrow> lookup h3 b = lookup h b"
      by (simp add: ls)
    ultimately show ?thesis by blast
  next
    assume "\<exists>ea. e = JRef ea \<and> lookup h ea = Some eo \<and> kind eo = ArrayObject xs
             \<and> integrity eo = Extensible \<and> props eo ''push'' = None
             \<and> length xs < max_array_length \<and> ea \<notin> {c, ra, ma, rla}"
    then obtain ea where e: "e = JRef ea" and eo: "lookup h ea = Some eo"
      and arr: "kind eo = ArrayObject xs" "integrity eo = Extensible" "props eo ''push'' = None"
        "length xs < max_array_length"
      and ne: "ea \<noteq> c" "ea \<noteq> ra" "ea \<noteq> ma" "ea \<noteq> rla"
      by auto
    note eb = lookup_bound [OF eo]
    let ?ga = "length h1"
    let ?eo = "eo\<lparr>kind := ArrayObject (xs @ [JRef ?ga])\<rparr>"
    have ep: "props co ''externals'' = Some (JRef ea)"
      using ext(1) cfg e by (simp split: option.splits)
    have e1: "lookup h1 ea = Some eo" using eo ne eb by (simp add: l1)
    from push_external_array [OF c1 ep e1 arr] obtain h2 where
      s2: "push_external h1 (JRef c) = Inr h2" and n2: "length h2 = Suc ?ga" and
      l2: "lookup h2 = (lookup h1)(?ga \<mapsto> google_maps_external, ea \<mapsto> ?eo)"
      by blast
    have c2: "lookup h2 c = Some co" using c1 bounds ne by (simp add: l2 n1)
    have m2: "lookup h2 ma = Some mo" using m1 bounds ne by (simp add: l2 n1)
    have r2: "lookup h2 rla = Some rlo" using r1 bounds ne by (simp add: l2 n1)
    let ?t = "length h2"
    from push_rule_run [OF c2 md(1) m2 rls(1) r2 rls(3,4,5,6)] obtain h3 where
      s3: "push_rule h2 (JRef c) = Inr h3" and
      l3: "lookup h3 = (lookup h2)(?t \<mapsto> image_test, Suc ?t \<mapsto> image_generator,
             Suc (Suc ?t) \<mapsto> image_rule ?t (Suc ?t),
             rla \<mapsto> rlo\<lparr>kind := ArrayObject (rs @ [JRef (Suc (Suc ?t))])\<rparr>)"
      by blast
    note ls = l3 l2 l1 n1 n2
    have same: "co\<lparr>props := (props co)(''externals'' \<mapsto> JRef ea)\<rparr> = co"
      using ep by (simp add: map_upd_triv)
    have "webpack h (JRef c) = Inr (JRef c, h3)"
      by (simp only: webpack_def s1 s2 s3 sum.case)
    moreover have "lookup h3 c = Some (co\<lparr>props := (props co)(''externals'' \<mapsto> JRef ea)\<rparr>)"
      using cfg dist bounds ne by (simp add: ls same)
    moreover have "lookup h3 ra = Some ?ro" using dist bounds ne by (simp add: ls)
    moreover have "lookup h3 ?n = Some ?ao" using dist bounds eb by (simp add: ls)
    moreover have "if truthy e then e = JRef ea else ?n \<le> ea" using e by simp
    moreover have "lookup h3 ea = Some ?eo" using bounds ne eb by (simp add: ls)
    moreover have "lookup h3 ?ga = Some google_maps_external" using bounds eb by (simp add: ls)
    moreover have "lookup h3 ma = Some mo" using m2 dist bounds by (simp add: ls)
    moreover have "lookup h3 rla = Some (rlo\<lparr>kind := ArrayObject (rs @ [JRef (Suc (Suc ?t))])\<rparr>)"
      by (simp add: l3)
    moreover have "lookup h3 (Suc (Suc ?t)) = Some (image_rule ?t (Suc ?t))"
      using bounds by (simp add: ls)
    moreover have "lookup h3 ?t = Some image_test" using bounds by (simp add: ls)
    moreover have "lookup h3 (Suc ?t) = Some image_generator" using bounds by (simp add: ls)
    moreover have "?n \<le> ?n \<and> ?n \<le> ?ga \<and> ?n \<le> Suc (Suc ?t) \<and> ?n \<le> ?t \<and> ?n \<le> Suc ?t"
      by (simp add: n1 n2)
    moreover have "\<forall>b. b < ?n \<and> b \<notin> {c, ra, ea, rla} \<longrightarrow> lookup h3 b = lookup h b"
      by (simp add: ls)
    ultimately show ?thesis by blast
  qed
qed

text \<open>
  The theorem at a configuration as Next.js builds one: two aliases, one of them
  \<open>sharp$\<close>, one external, one rule, and further properties at each level. \<open>sharp$\<close>
  is rebound and \<open>@\<close> kept, each array has one more element at its end, and the
  properties \<open>mode\<close>, \<open>extensions\<close> and \<open>loader\<close> read as before.
\<close>

theorem webpack_frame_witness:
  "\<exists>h' na ga rl t g.
     webpack
       [\<lparr>kind = OrdinaryObject,
         props = [''resolve'' \<mapsto> JRef 1, ''externals'' \<mapsto> JRef 3, ''module'' \<mapsto> JRef 4,
                  ''mode'' \<mapsto> JString ''production''],
         integrity = Extensible\<rparr>,
        \<lparr>kind = OrdinaryObject, props = [''alias'' \<mapsto> JRef 2, ''extensions'' \<mapsto> JRef 6],
         integrity = Extensible\<rparr>,
        \<lparr>kind = OrdinaryObject,
         props = [''@'' \<mapsto> JString ''src'', ''sharp$'' \<mapsto> JString ''sharp''],
         integrity = Extensible\<rparr>,
        \<lparr>kind = ArrayObject [JString ''next''], props = Map.empty, integrity = Extensible\<rparr>,
        \<lparr>kind = OrdinaryObject, props = [''rules'' \<mapsto> JRef 5], integrity = Extensible\<rparr>,
        \<lparr>kind = ArrayObject [JRef 7], props = Map.empty, integrity = Extensible\<rparr>,
        \<lparr>kind = ArrayObject [JString ''.js''], props = Map.empty, integrity = Extensible\<rparr>,
        \<lparr>kind = OrdinaryObject, props = [''loader'' \<mapsto> JString ''css-loader''],
         integrity = Extensible\<rparr>]
       (JRef 0)
       = Inr (JRef 0, h')
     \<and> get_prop h' (JRef 0) ''resolve'' = Inr (JRef 1)
     \<and> get_prop h' (JRef 0) ''externals'' = Inr (JRef 3)
     \<and> get_prop h' (JRef 0) ''module'' = Inr (JRef 4)
     \<and> get_prop h' (JRef 0) ''mode'' = Inr (JString ''production'')
     \<and> get_prop h' (JRef 1) ''alias'' = Inr (JRef na)
     \<and> get_prop h' (JRef 1) ''extensions'' = Inr (JRef 6)
     \<and> get_prop h' (JRef na) ''sharp$'' = Inr (JBool False)
     \<and> get_prop h' (JRef na) ''@'' = Inr (JString ''src'')
     \<and> map_option kind (lookup h' 3) = Some (ArrayObject [JString ''next'', JRef ga])
     \<and> lookup h' ga = Some google_maps_external
     \<and> get_prop h' (JRef 4) ''rules'' = Inr (JRef 5)
     \<and> map_option kind (lookup h' 5) = Some (ArrayObject [JRef 7, JRef rl])
     \<and> lookup h' rl = Some (image_rule t g)
     \<and> lookup h' t = Some image_test
     \<and> lookup h' g = Some image_generator
     \<and> map_option kind (lookup h' 6) = Some (ArrayObject [JString ''.js''])
     \<and> get_prop h' (JRef 7) ''loader'' = Inr (JString ''css-loader'')"
proof -
  let ?co = "\<lparr>kind = OrdinaryObject,
         props = [''resolve'' \<mapsto> JRef 1, ''externals'' \<mapsto> JRef 3, ''module'' \<mapsto> JRef 4,
                  ''mode'' \<mapsto> JString ''production''],
         integrity = Extensible\<rparr>"
  let ?ro = "\<lparr>kind = OrdinaryObject, props = [''alias'' \<mapsto> JRef 2, ''extensions'' \<mapsto> JRef 6],
         integrity = Extensible\<rparr>"
  let ?ps = "[''@'' \<mapsto> JString ''src'', ''sharp$'' \<mapsto> JString ''sharp'']"
  let ?ao = "\<lparr>kind = OrdinaryObject, props = ?ps, integrity = Extensible\<rparr>"
  let ?eo = "\<lparr>kind = ArrayObject [JString ''next''], props = Map.empty, integrity = Extensible\<rparr>"
  let ?mo = "\<lparr>kind = OrdinaryObject, props = [''rules'' \<mapsto> JRef 5], integrity = Extensible\<rparr>"
  let ?rlo = "\<lparr>kind = ArrayObject [JRef 7], props = Map.empty, integrity = Extensible\<rparr>"
  let ?xo = "\<lparr>kind = ArrayObject [JString ''.js''], props = Map.empty, integrity = Extensible\<rparr>"
  let ?lo = "\<lparr>kind = OrdinaryObject, props = [''loader'' \<mapsto> JString ''css-loader''],
         integrity = Extensible\<rparr>"
  let ?h = "[?co, ?ro, ?ao, ?eo, ?mo, ?rlo, ?xo, ?lo]"
  have cfg: "lookup ?h 0 = Some ?co" by (simp add: lookup_def)
  have res: "props ?co ''resolve'' = Some (JRef 1)" "lookup ?h 1 = Some ?ro"
    "can_assign ?ro ''alias''"
    by (simp_all add: lookup_def can_assign_def)
  have als: "get_prop ?h (JRef 1) ''alias'' = Inr (JRef 2)"
    "\<not> truthy (JRef 2) \<and> ?ps = Map.empty
     \<or> (\<exists>aa ao. JRef 2 = JRef aa \<and> lookup ?h aa = Some ao \<and> (\<forall>es. kind ao \<noteq> ArrayObject es)
           \<and> ?ps = props ao)"
    by (simp_all add: lookup_def)
  have ext: "get_prop ?h (JRef 0) ''externals'' = Inr (JRef 3)"
    "\<not> truthy (JRef 3) \<and> can_assign ?co ''externals'' \<and> ?eo = array_literal []
       \<and> [JString ''next''] = []
     \<or> (\<exists>ea. JRef 3 = JRef ea \<and> lookup ?h ea = Some ?eo
           \<and> kind ?eo = ArrayObject [JString ''next'']
           \<and> integrity ?eo = Extensible \<and> props ?eo ''push'' = None
           \<and> length [JString ''next''] < max_array_length \<and> ea \<notin> {0, 1, 4, 5})"
    by (simp_all add: lookup_def max_array_length_def)
  have md: "props ?co ''module'' = Some (JRef 4)" "lookup ?h 4 = Some ?mo"
    by (simp_all add: lookup_def)
  have rls: "props ?mo ''rules'' = Some (JRef 5)" "lookup ?h 5 = Some ?rlo"
    "kind ?rlo = ArrayObject [JRef 7]" "integrity ?rlo = Extensible" "props ?rlo ''push'' = None"
    "length [JRef 7] < max_array_length"
    by (simp_all add: lookup_def max_array_length_def)
  have dist: "distinct [0 :: addr, 1, 4, 5]" by simp
  from webpack_frame [OF cfg res als ext md rls dist] obtain h' na ea ga rl t g where
    run: "webpack ?h (JRef 0) = Inr (JRef 0, h')" and
    c': "lookup h' 0 = Some (?co\<lparr>props := (props ?co)(''externals'' \<mapsto> JRef ea)\<rparr>)" and
    r': "lookup h' 1 = Some (?ro\<lparr>props := (props ?ro)(''alias'' \<mapsto> JRef na)\<rparr>)" and
    a': "lookup h' na = Some (object_literal (?ps(''sharp$'' \<mapsto> JBool False)))" and
    ea: "if truthy (JRef 3) then JRef 3 = JRef ea else length ?h \<le> ea" and
    e': "lookup h' ea = Some (?eo\<lparr>kind := ArrayObject ([JString ''next''] @ [JRef ga])\<rparr>)" and
    g': "lookup h' ga = Some google_maps_external" and
    m': "lookup h' 4 = Some ?mo" and
    l': "lookup h' 5 = Some (?rlo\<lparr>kind := ArrayObject ([JRef 7] @ [JRef rl])\<rparr>)" and
    i': "lookup h' rl = Some (image_rule t g)" "lookup h' t = Some image_test"
      "lookup h' g = Some image_generator" and
    fr: "\<forall>b. b < length ?h \<and> b \<notin> {0, 1, ea, 5} \<longrightarrow> lookup h' b = lookup ?h b"
    by (elim exE conjE) (rule that, assumption+)
  from ea have ea3: "ea = 3" by simp
  from fr ea3 have "lookup h' 6 = lookup ?h 6" "lookup h' 7 = lookup ?h 7" by simp_all
  then have x': "lookup h' 6 = Some ?xo" "lookup h' 7 = Some ?lo" by (simp_all add: lookup_def)
  note run
  moreover have "get_prop h' (JRef 0) ''resolve'' = Inr (JRef 1)" using c' by simp
  moreover have "get_prop h' (JRef 0) ''externals'' = Inr (JRef 3)" using c' by (simp add: ea3)
  moreover have "get_prop h' (JRef 0) ''module'' = Inr (JRef 4)" using c' by simp
  moreover have "get_prop h' (JRef 0) ''mode'' = Inr (JString ''production'')" using c' by simp
  moreover have "get_prop h' (JRef 1) ''alias'' = Inr (JRef na)" using r' by simp
  moreover have "get_prop h' (JRef 1) ''extensions'' = Inr (JRef 6)" using r' by simp
  moreover have "get_prop h' (JRef na) ''sharp$'' = Inr (JBool False)"
    using a' by (simp add: object_literal_def)
  moreover have "get_prop h' (JRef na) ''@'' = Inr (JString ''src'')"
    using a' by (simp add: object_literal_def)
  moreover have "map_option kind (lookup h' 3) = Some (ArrayObject [JString ''next'', JRef ga])"
    using e' by (simp add: ea3)
  moreover note g'
  moreover have "get_prop h' (JRef 4) ''rules'' = Inr (JRef 5)" using m' by simp
  moreover have "map_option kind (lookup h' 5) = Some (ArrayObject [JRef 7, JRef rl])"
    using l' by simp
  moreover note i'
  moreover have "map_option kind (lookup h' 6) = Some (ArrayObject [JString ''.js''])"
    using x' by simp
  moreover have "get_prop h' (JRef 7) ''loader'' = Inr (JString ''css-loader'')"
    using x' by simp
  ultimately show ?thesis by blast
qed

text \<open>
  C9 as it is written, for every configuration object, does not hold. The hook throws a
  \<open>TypeError\<close> and returns nothing on
  \<^item> \<open>{ module: { rules: [] } }\<close>, which has no \<open>resolve\<close>;
  \<^item> \<open>{ resolve: {}, module: {} }\<close>, which has no \<open>rules\<close>;
  \<^item> \<open>{ resolve: {}, externals: 'jquery', module: { rules: [] } }\<close>, whose \<open>externals\<close>
    is a string;
  \<^item> the same with \<open>externals: Object.freeze([])\<close>.

  It returns, but not what C9 says,
  \<^item> when \<open>resolve\<close> is frozen: the assignment is dropped, and \<open>resolve.alias\<close> is
    \<open>undefined\<close> as before;
  \<^item> when \<open>resolve.alias\<close> is webpack's array form \<open>[{ name: 'a', alias: 'b' }]\<close>: the
    new \<open>resolve.alias\<close>, at address 6, is an ordinary object and no array;
  \<^item> when \<open>externals\<close> and \<open>module.rules\<close> are one array: it ends with two new
    elements, the external and the rule.
\<close>

theorem webpack_every_config_counterexample:
  "webpack
     [\<lparr>kind = OrdinaryObject, props = [''module'' \<mapsto> JRef 1], integrity = Extensible\<rparr>,
      \<lparr>kind = OrdinaryObject, props = [''rules'' \<mapsto> JRef 2], integrity = Extensible\<rparr>,
      \<lparr>kind = ArrayObject [], props = Map.empty, integrity = Extensible\<rparr>]
     (JRef 0) = Inl TypeError
   \<and> webpack
     [\<lparr>kind = OrdinaryObject, props = [''resolve'' \<mapsto> JRef 1, ''module'' \<mapsto> JRef 2],
       integrity = Extensible\<rparr>,
      \<lparr>kind = OrdinaryObject, props = Map.empty, integrity = Extensible\<rparr>,
      \<lparr>kind = OrdinaryObject, props = Map.empty, integrity = Extensible\<rparr>]
     (JRef 0) = Inl TypeError
   \<and> webpack
     [\<lparr>kind = OrdinaryObject,
       props = [''resolve'' \<mapsto> JRef 1, ''externals'' \<mapsto> JString ''jquery'', ''module'' \<mapsto> JRef 2],
       integrity = Extensible\<rparr>,
      \<lparr>kind = OrdinaryObject, props = Map.empty, integrity = Extensible\<rparr>,
      \<lparr>kind = OrdinaryObject, props = [''rules'' \<mapsto> JRef 3], integrity = Extensible\<rparr>,
      \<lparr>kind = ArrayObject [], props = Map.empty, integrity = Extensible\<rparr>]
     (JRef 0) = Inl TypeError
   \<and> webpack
     [\<lparr>kind = OrdinaryObject,
       props = [''resolve'' \<mapsto> JRef 1, ''externals'' \<mapsto> JRef 4, ''module'' \<mapsto> JRef 2],
       integrity = Extensible\<rparr>,
      \<lparr>kind = OrdinaryObject, props = Map.empty, integrity = Extensible\<rparr>,
      \<lparr>kind = OrdinaryObject, props = [''rules'' \<mapsto> JRef 3], integrity = Extensible\<rparr>,
      \<lparr>kind = ArrayObject [], props = Map.empty, integrity = Extensible\<rparr>,
      \<lparr>kind = ArrayObject [], props = Map.empty, integrity = Frozen\<rparr>]
     (JRef 0) = Inl TypeError
   \<and> \<not> isl (webpack
     [\<lparr>kind = OrdinaryObject, props = [''resolve'' \<mapsto> JRef 1, ''module'' \<mapsto> JRef 2],
       integrity = Extensible\<rparr>,
      \<lparr>kind = OrdinaryObject, props = Map.empty, integrity = Frozen\<rparr>,
      \<lparr>kind = OrdinaryObject, props = [''rules'' \<mapsto> JRef 3], integrity = Extensible\<rparr>,
      \<lparr>kind = ArrayObject [], props = Map.empty, integrity = Extensible\<rparr>]
     (JRef 0))
   \<and> get_prop (snd (projr (webpack
     [\<lparr>kind = OrdinaryObject, props = [''resolve'' \<mapsto> JRef 1, ''module'' \<mapsto> JRef 2],
       integrity = Extensible\<rparr>,
      \<lparr>kind = OrdinaryObject, props = Map.empty, integrity = Frozen\<rparr>,
      \<lparr>kind = OrdinaryObject, props = [''rules'' \<mapsto> JRef 3], integrity = Extensible\<rparr>,
      \<lparr>kind = ArrayObject [], props = Map.empty, integrity = Extensible\<rparr>]
     (JRef 0)))) (JRef 1) ''alias'' = Inr JUndefined
   \<and> map_option kind (lookup (snd (projr (webpack
     [\<lparr>kind = OrdinaryObject, props = [''resolve'' \<mapsto> JRef 1, ''module'' \<mapsto> JRef 2],
       integrity = Extensible\<rparr>,
      \<lparr>kind = OrdinaryObject, props = [''alias'' \<mapsto> JRef 4], integrity = Extensible\<rparr>,
      \<lparr>kind = OrdinaryObject, props = [''rules'' \<mapsto> JRef 3], integrity = Extensible\<rparr>,
      \<lparr>kind = ArrayObject [], props = Map.empty, integrity = Extensible\<rparr>,
      \<lparr>kind = ArrayObject [JRef 5], props = Map.empty, integrity = Extensible\<rparr>,
      \<lparr>kind = OrdinaryObject, props = [''name'' \<mapsto> JString ''a'', ''alias'' \<mapsto> JString ''b''],
       integrity = Extensible\<rparr>]
     (JRef 0)))) 6) = Some OrdinaryObject
   \<and> get_prop (snd (projr (webpack
     [\<lparr>kind = OrdinaryObject, props = [''resolve'' \<mapsto> JRef 1, ''module'' \<mapsto> JRef 2],
       integrity = Extensible\<rparr>,
      \<lparr>kind = OrdinaryObject, props = [''alias'' \<mapsto> JRef 4], integrity = Extensible\<rparr>,
      \<lparr>kind = OrdinaryObject, props = [''rules'' \<mapsto> JRef 3], integrity = Extensible\<rparr>,
      \<lparr>kind = ArrayObject [], props = Map.empty, integrity = Extensible\<rparr>,
      \<lparr>kind = ArrayObject [JRef 5], props = Map.empty, integrity = Extensible\<rparr>,
      \<lparr>kind = OrdinaryObject, props = [''name'' \<mapsto> JString ''a'', ''alias'' \<mapsto> JString ''b''],
       integrity = Extensible\<rparr>]
     (JRef 0)))) (JRef 1) ''alias'' = Inr (JRef 6)
   \<and> map_option kind (lookup (snd (projr (webpack
     [\<lparr>kind = OrdinaryObject,
       props = [''resolve'' \<mapsto> JRef 1, ''externals'' \<mapsto> JRef 3, ''module'' \<mapsto> JRef 2],
       integrity = Extensible\<rparr>,
      \<lparr>kind = OrdinaryObject, props = Map.empty, integrity = Extensible\<rparr>,
      \<lparr>kind = OrdinaryObject, props = [''rules'' \<mapsto> JRef 3], integrity = Extensible\<rparr>,
      \<lparr>kind = ArrayObject [], props = Map.empty, integrity = Extensible\<rparr>]
     (JRef 0)))) 3) = Some (ArrayObject [JRef 5, JRef 8])"
  by (simp add: webpack_def assign_alias_def push_external_def push_rule_def alloc_def
        lookup_def can_assign_def object_literal_def array_literal_def max_array_length_def)

end
